theory Spec2Isabelle
  imports Main
begin

section \<open>Numbers, dates and strings of the host language\<close>

text \<open>
  A JavaScript \<^verbatim>\<open>Date\<close> is its time value: integer milliseconds since the epoch, or
  \<^verbatim>\<open>NaN\<close> when the string it was built from does not parse (\<open>InvalidDate\<close>). The
  timestamp strings of the payloads (\<^verbatim>\<open>lastSeen\<close>, \<^verbatim>\<open>timestamp\<close>) are represented by
  the \<^verbatim>\<open>Date\<close> that \<^verbatim>\<open>new Date(s)\<close> builds from them. The clock (\<^verbatim>\<open>new Date()\<close>,
  \<^verbatim>\<open>Date.now()\<close>) is a parameter \<open>now\<close> of every function that reads it.
\<close>

datatype jsdate = InvalidDate | TimeValue int

text \<open>Decimal rendering of an integer, as a template literal or \<^verbatim>\<open>toString()\<close> gives it.\<close>

definition digit_char :: "nat \<Rightarrow> char" where
  "digit_char d = ''0123456789'' ! d"

fun show_nat :: "nat \<Rightarrow> string" where
  "show_nat n = (if n < 10 then [digit_char n] else show_nat (n div 10) @ [digit_char (n mod 10)])"

definition show_int :: "int \<Rightarrow> string" where
  "show_int i = (if i < 0 then CHR ''-'' # show_nat (nat (- i)) else show_nat (nat i))"


section \<open>Presence status string\<close>

text \<open>
  The argument of \<^verbatim>\<open>getOnlineStatus\<close> is \<^verbatim>\<open>{ isOnline?: boolean; lastSeen?: string }\<close>.
  \<open>isOnline = None\<close> is a missing field (falsy); \<open>lastSeen = None\<close> is a missing or
  empty string (falsy), \<open>Some d\<close> a non-empty string with \<^verbatim>\<open>new Date(lastSeen) = d\<close>.
\<close>

record presence_info =
  isOnline :: "bool option"
  lastSeen :: "jsdate option"

text \<open>
  The part the three copies share, after the \<^verbatim>\<open>if (user.lastSeen)\<close> test:
  \<^verbatim>\<open>
  const diffInMinutes = Math.floor((now.getTime() - lastSeen.getTime()) / (1000 * 60));
  if (diffInMinutes < 60) return `${diffInMinutes}m ago`;
  if (diffInMinutes < 1440) return `${Math.floor(diffInMinutes / 60)}h ago`;
  return `${Math.floor(diffInMinutes / 1440)}d ago`;
  \<close>
  \<^verbatim>\<open>Math.floor\<close> of a quotient is \<open>div\<close> on \<open>int\<close> (both round towards minus infinity).
  With an invalid date every number is \<^verbatim>\<open>NaN\<close>, both comparisons are false and the
  last line renders \<^verbatim>\<open>NaN\<close>.
\<close>

definition staleness :: "int \<Rightarrow> jsdate \<Rightarrow> string" where
  "staleness now d =
     (case d of
        InvalidDate \<Rightarrow> ''NaNd ago''
      | TimeValue t \<Rightarrow>
          (let diffInMinutes = (now - t) div (1000 * 60) in
           if diffInMinutes < 60 then show_int diffInMinutes @ ''m ago''
           else if diffInMinutes < 1440 then show_int (diffInMinutes div 60) @ ''h ago''
           else show_int (diffInMinutes div 1440) @ ''d ago''))"

text \<open>Chat header (\<^verbatim>\<open>Chat.tsx\<close>).\<close>

definition Chat_getOnlineStatus :: "int \<Rightarrow> 'a presence_info_scheme \<Rightarrow> string" where
  "Chat_getOnlineStatus now user =
     (if isOnline user = Some True then ''Online''
      else case lastSeen user of
             Some d \<Rightarrow> staleness now d
           | None \<Rightarrow> ''Offline'')"

text \<open>Conversation list (\<^verbatim>\<open>Matches\<close>): the same text (field \<^verbatim>\<open>text\<close>), paired with a colour class (field \<^verbatim>\<open>color\<close>).\<close>

record status_badge =
  status_text :: string
  status_color :: string

definition Matches_getOnlineStatus :: "int \<Rightarrow> 'a presence_info_scheme \<Rightarrow> status_badge" where
  "Matches_getOnlineStatus now user =
     (if isOnline user = Some True then \<lparr>status_text = ''Online'', status_color = ''text-green-600''\<rparr>
      else case lastSeen user of
             Some d \<Rightarrow> \<lparr>status_text = staleness now d, status_color = ''text-gray-500''\<rparr>
           | None \<Rightarrow> \<lparr>status_text = ''Offline'', status_color = ''text-gray-500''\<rparr>)"

text \<open>Discovery card (\<^verbatim>\<open>Dashboard\<close>).\<close>

definition Dashboard_getOnlineStatus :: "int \<Rightarrow> 'a presence_info_scheme \<Rightarrow> string" where
  "Dashboard_getOnlineStatus now user =
     (if isOnline user = Some True then ''Online''
      else case lastSeen user of
             Some d \<Rightarrow> staleness now d
           | None \<Rightarrow> ''Offline'')"


section \<open>Real-time channel manager: the online-user list\<close>

text \<open>
  \<^verbatim>\<open>SocketProvider\<close> keeps \<^verbatim>\<open>onlineUsers: string[]\<close>, initially \<^verbatim>\<open>[]\<close>, and two
  handlers update it:
  \<^verbatim>\<open>
  newSocket.on('user_online',  (userId) => {
    setOnlineUsers(prev => [...prev.filter(id => id !== userId), userId]); });
  newSocket.on('user_offline', (userId) => {
    setOnlineUsers(prev => prev.filter(id => id !== userId)); });
  \<close>
  The list is modelled as a list (order and duplicates are visible in an array).
\<close>

definition user_online :: "string \<Rightarrow> string list \<Rightarrow> string list" where
  "user_online userId prev = filter (\<lambda>i. i \<noteq> userId) prev @ [userId]"

definition user_offline :: "string \<Rightarrow> string list \<Rightarrow> string list" where
  "user_offline userId prev = filter (\<lambda>i. i \<noteq> userId) prev"

datatype presence_event = UserOnline string | UserOffline string

fun presence_step :: "presence_event \<Rightarrow> string list \<Rightarrow> string list" where
  "presence_step (UserOnline u) prev = user_online u prev"
| "presence_step (UserOffline u) prev = user_offline u prev"

text \<open>The events are applied in receipt order, starting from any list.\<close>

fun presence_run :: "presence_event list \<Rightarrow> string list \<Rightarrow> string list" where
  "presence_run [] prev = prev"
| "presence_run (e # es) prev = presence_run es (presence_step e prev)"


section \<open>Chat screen: data\<close>

text \<open>
  A string of the program is a \<open>string\<close> whose characters are its code units below 256.
  A value that may be \<^verbatim>\<open>undefined\<close> or \<^verbatim>\<open>null\<close> is an \<open>option\<close>; \<open>truthy\<close> is the
  test JavaScript applies to such a string in a condition (\<^verbatim>\<open>undefined\<close> and the
  empty string are falsy).
\<close>

definition truthy :: "string option \<Rightarrow> bool" where
  "truthy v = (case v of None \<Rightarrow> False | Some x \<Rightarrow> x \<noteq> [])"

text \<open>
  \<^verbatim>\<open>String.prototype.trim\<close> strips white space and line terminators from both ends;
  among the code units below 256 these are TAB, LF, VT, FF, CR, SP and NBSP.
\<close>

definition is_space :: "char \<Rightarrow> bool" where
  "is_space c = (c \<in> set [CHR 0x09, CHR 0x0A, CHR 0x0B, CHR 0x0C, CHR 0x0D, CHR 0x20, CHR 0xA0])"

definition trim :: "string \<Rightarrow> string" where
  "trim str = rev (dropWhile is_space (rev (dropWhile is_space str)))"

text \<open>\<^verbatim>\<open>Message.sender\<close>; the field \<^verbatim>\<open>_id\<close> is \<open>sender_id\<close>.\<close>

record sender_info =
  sender_id :: string
  firstName :: string
  lastName :: string
  profilePicture :: "string option"

text \<open>\<^verbatim>\<open>interface Message\<close>; the field \<^verbatim>\<open>_id\<close> is \<open>message_id\<close>.\<close>

record message =
  message_id :: string
  sender :: sender_info
  content :: string
  timestamp :: jsdate
  read :: "bool option"
  readAt :: "jsdate option"

text \<open>An entry of \<^verbatim>\<open>ChatData.participants\<close>: a sender with the two presence fields.\<close>

record participant = presence_info +
  participant_id :: string
  participant_firstName :: string
  participant_lastName :: string
  participant_profilePicture :: "string option"

text \<open>\<^verbatim>\<open>interface ChatData\<close>; the field \<^verbatim>\<open>_id\<close> is \<open>chat_id\<close>.\<close>

record chat_data =
  chat_id :: string
  participants :: "participant list"
  messages :: "message list"

text \<open>
  The callback that \<^verbatim>\<open>handleTyping\<close> hands to \<^verbatim>\<open>setTimeout\<close> is a closure over the
  constants \<^verbatim>\<open>typing\<close>, \<^verbatim>\<open>socket\<close> and \<^verbatim>\<open>chatId\<close> of the render in which
  \<^verbatim>\<open>handleTyping\<close> was created. A pending timer is its due time and these three
  captured values.
\<close>

record typing_timer =
  due :: int
  seen_typing :: bool
  seen_socket :: bool
  seen_chatId :: "string option"

text \<open>
  The three socket listeners registered by the subscription effect are closures over
  \<^verbatim>\<open>chatId\<close> and \<^verbatim>\<open>user?.id\<close> of the render whose effect registered them.
\<close>

record listeners =
  heard_chatId :: "string option"
  heard_userId :: "string option"

text \<open>
  The state of one mounted \<^verbatim>\<open>Chat\<close> component: route parameter, context values
  (\<open>socket\<close> is true when the context's socket is not \<^verbatim>\<open>null\<close>; \<open>userId\<close> is
  \<^verbatim>\<open>user?.id\<close>), the six \<^verbatim>\<open>useState\<close> cells, the timer of \<^verbatim>\<open>typingTimeoutRef\<close> that is
  still pending, and the registered listeners.
\<close>

record chat_state =
  chatId :: "string option"
  socket :: bool
  userId :: "string option"
  chat :: "chat_data option"
  newMessage :: string
  loading :: bool
  sending :: bool
  typing :: bool
  otherUserTyping :: bool
  typingTimeoutRef :: "typing_timer option"
  registered :: "listeners option"

text \<open>What a handler does to the outside: socket emissions, API requests, notifications.\<close>

datatype action = Like | Pass

datatype effect =
    Emit_join_chat "string option"
  | Emit_typing_start "string option"
  | Emit_typing_stop "string option"
  | Emit_send_message "string option" string
  | Get_chat_messages "string option"
  | Post_chat_message "string option" string
  | Get_potential_matches "(string \<times> string) list"
  | Post_swipe string action
  | Console_error
  | Toast_error string
  | Toast_success string
  | Navigate string

text \<open>The \<^verbatim>\<open>useState\<close> initial values of a freshly mounted screen.\<close>

definition initial_chat :: "string option \<Rightarrow> bool \<Rightarrow> string option \<Rightarrow> chat_state" where
  "initial_chat cid sock uid =
     \<lparr>chatId = cid, socket = sock, userId = uid, chat = None, newMessage = [],
      loading = True, sending = False, typing = False, otherUserTyping = False,
      typingTimeoutRef = None, registered = None\<rparr>"


section \<open>Chat screen: history fetch and subscription\<close>

text \<open>
  \<^verbatim>\<open>
  useEffect(() => { if (chatId) { fetchChat(); } }, [chatId]);
  \<close>
  \<^verbatim>\<open>fetchChat\<close> runs up to its \<^verbatim>\<open>await\<close>: the request is sent and the state is untouched.
\<close>

definition fetch_effect :: "chat_state \<Rightarrow> effect list" where
  "fetch_effect s = (if truthy (chatId s) then [Get_chat_messages (chatId s)] else [])"

text \<open>
  The rest of \<^verbatim>\<open>fetchChat\<close>, run when the request settles (\<open>None\<close>: it was rejected):
  \<^verbatim>\<open>
  try { ...; setChat(response.data); }
  catch (error) { console.error(...); toast.error('Failed to load chat'); navigate('/matches'); }
  finally { setLoading(false); }
  \<close>
\<close>

definition fetchChat_settled :: "chat_data option \<Rightarrow> chat_state \<Rightarrow> chat_state \<times> effect list" where
  "fetchChat_settled response s =
     (case response of
        Some data \<Rightarrow> (s\<lparr>chat := Some data, loading := False\<rparr>, [])
      | None \<Rightarrow> (s\<lparr>loading := False\<rparr>,
                 [Console_error, Toast_error ''Failed to load chat'', Navigate ''/matches'']))"

text \<open>
  \<^verbatim>\<open>
  useEffect(() => {
    if (socket && chatId) {
      socket.emit('join_chat', chatId);
      socket.on('receive_message', ...); socket.on('user_typing', ...);
      socket.on('user_stop_typing', ...);
      return () => { socket.off(...) };
    }
  }, [socket, chatId, user?.id]);
  \<close>
\<close>

definition subscription_effect :: "chat_state \<Rightarrow> chat_state \<times> effect list" where
  "subscription_effect s =
     (if socket s \<and> truthy (chatId s)
      then (s\<lparr>registered := Some \<lparr>heard_chatId = chatId s, heard_userId = userId s\<rparr>\<rparr>,
            [Emit_join_chat (chatId s)])
      else (s, []))"

text \<open>After the first render React runs the effects in the order they are declared.\<close>

definition mount :: "chat_state \<Rightarrow> chat_state \<times> effect list" where
  "mount s = (let (s', out) = subscription_effect s in (s', fetch_effect s @ out))"

text \<open>The payload of \<^verbatim>\<open>receive_message\<close>: \<^verbatim>\<open>chatId\<close>, \<^verbatim>\<open>sender\<close>, \<^verbatim>\<open>message\<close>, \<^verbatim>\<open>timestamp\<close>.\<close>

record received =
  received_chatId :: "string option"
  received_sender :: string
  received_message :: string
  received_timestamp :: jsdate

text \<open>
  \<^verbatim>\<open>
  socket.on('receive_message', (data) => {
    if (data.chatId === chatId) {
      const newMessage: Message = { _id: Date.now().toString(),
        sender: { _id: data.sender, firstName: 'User', lastName: '' },
        content: data.message, timestamp: data.timestamp };
      setChat(prev => prev ? { ...prev, messages: [...prev.messages, newMessage] } : null);
    }
  });
  \<close>
\<close>

definition live_message :: "int \<Rightarrow> received \<Rightarrow> message" where
  "live_message now data =
     \<lparr>message_id = show_int now,
      sender = \<lparr>sender_id = received_sender data, firstName = ''User'', lastName = [],
                profilePicture = None\<rparr>,
      content = received_message data,
      timestamp = received_timestamp data,
      read = None, readAt = None\<rparr>"

definition append_message :: "message \<Rightarrow> chat_data option \<Rightarrow> chat_data option" where
  "append_message m prev =
     (case prev of
        Some c \<Rightarrow> Some (c\<lparr>messages := messages c @ [m]\<rparr>)
      | None \<Rightarrow> None)"

definition on_receive_message :: "listeners \<Rightarrow> int \<Rightarrow> received \<Rightarrow> chat_state \<Rightarrow> chat_state" where
  "on_receive_message l now data s =
     (if received_chatId data = heard_chatId l
      then s\<lparr>chat := append_message (live_message now data) (chat s)\<rparr>
      else s)"

text \<open>The payload of \<^verbatim>\<open>user_typing\<close> and \<^verbatim>\<open>user_stop_typing\<close>: \<^verbatim>\<open>chatId\<close>, \<^verbatim>\<open>userId\<close>.\<close>

record typing_notice =
  notice_chatId :: "string option"
  notice_userId :: "string option"

text \<open>
  \<^verbatim>\<open>
  socket.on('user_typing', (data) => {
    if (data.chatId === chatId && data.userId !== user?.id) { setOtherUserTyping(true); } });
  socket.on('user_stop_typing', (data) => {
    if (data.chatId === chatId && data.userId !== user?.id) { setOtherUserTyping(false); } });
  \<close>
\<close>

definition on_user_typing :: "listeners \<Rightarrow> typing_notice \<Rightarrow> chat_state \<Rightarrow> chat_state" where
  "on_user_typing l data s =
     (if notice_chatId data = heard_chatId l \<and> notice_userId data \<noteq> heard_userId l
      then s\<lparr>otherUserTyping := True\<rparr>
      else s)"

definition on_user_stop_typing :: "listeners \<Rightarrow> typing_notice \<Rightarrow> chat_state \<Rightarrow> chat_state" where
  "on_user_stop_typing l data s =
     (if notice_chatId data = heard_chatId l \<and> notice_userId data \<noteq> heard_userId l
      then s\<lparr>otherUserTyping := False\<rparr>
      else s)"

text \<open>
  What can happen to a mounted screen from the network side. A socket event reaches a
  listener only while one is registered.
\<close>

datatype chat_event =
    Mounted
  | Fetch_settled "chat_data option"
  | Receive_message int received
  | User_typing typing_notice
  | User_stop_typing typing_notice

fun chat_step :: "chat_event \<Rightarrow> chat_state \<Rightarrow> chat_state" where
  "chat_step Mounted s = fst (mount s)"
| "chat_step (Fetch_settled response) s = fst (fetchChat_settled response s)"
| "chat_step (Receive_message now data) s =
     (case registered s of None \<Rightarrow> s | Some l \<Rightarrow> on_receive_message l now data s)"
| "chat_step (User_typing data) s =
     (case registered s of None \<Rightarrow> s | Some l \<Rightarrow> on_user_typing l data s)"
| "chat_step (User_stop_typing data) s =
     (case registered s of None \<Rightarrow> s | Some l \<Rightarrow> on_user_stop_typing l data s)"

fun chat_run :: "chat_event list \<Rightarrow> chat_state \<Rightarrow> chat_state" where
  "chat_run [] s = s"
| "chat_run (e # es) s = chat_run es (chat_step e s)"


section \<open>Chat screen: typing signal\<close>

text \<open>
  \<^verbatim>\<open>
  const handleTyping = () => {
    if (!typing && socket && chatId) { setTyping(true); socket.emit('typing_start', { chatId }); }
    if (typingTimeoutRef.current) { clearTimeout(typingTimeoutRef.current); }
    typingTimeoutRef.current = setTimeout(() => {
      if (typing && socket && chatId) { setTyping(false); socket.emit('typing_stop', { chatId }); }
    }, 1000);
  };
  \<close>
  The handler runs in the render of the current state \<open>s\<close>, so the \<^verbatim>\<open>typing\<close> it tests
  and the \<^verbatim>\<open>typing\<close> its timer callback captures are both \<open>typing s\<close>, the value
  before \<^verbatim>\<open>setTyping(true)\<close> takes effect. Replacing the pending timer is the
  \<^verbatim>\<open>clearTimeout\<close> followed by \<^verbatim>\<open>setTimeout\<close>.
\<close>

definition handleTyping :: "int \<Rightarrow> chat_state \<Rightarrow> chat_state \<times> effect list" where
  "handleTyping now s =
     (let timer = \<lparr>due = now + 1000, seen_typing = typing s, seen_socket = socket s,
                   seen_chatId = chatId s\<rparr>
      in if \<not> typing s \<and> socket s \<and> truthy (chatId s)
         then (s\<lparr>typing := True, typingTimeoutRef := Some timer\<rparr>, [Emit_typing_start (chatId s)])
         else (s\<lparr>typingTimeoutRef := Some timer\<rparr>, []))"

text \<open>The timer callback, run with the values it captured.\<close>

definition typing_timeout :: "typing_timer \<Rightarrow> chat_state \<Rightarrow> chat_state \<times> effect list" where
  "typing_timeout timer s =
     (if seen_typing timer \<and> seen_socket timer \<and> truthy (seen_chatId timer)
      then (s\<lparr>typing := False\<rparr>, [Emit_typing_stop (seen_chatId timer)])
      else (s, []))"

text \<open>
  The passage of time up to \<open>now\<close>: a pending timer that is due fires once and is no
  longer pending.
\<close>

definition elapse :: "int \<Rightarrow> chat_state \<Rightarrow> chat_state \<times> effect list" where
  "elapse now s =
     (case typingTimeoutRef s of
        None \<Rightarrow> (s, [])
      | Some timer \<Rightarrow>
          if due timer \<le> now
          then (let (s', out) = typing_timeout timer s in (s'\<lparr>typingTimeoutRef := None\<rparr>, out))
          else (s, []))"

text \<open>
  \<^verbatim>\<open>onChange={(e) => { setNewMessage(e.target.value); handleTyping(); }}\<close>:
  a keystroke at time \<open>now\<close> that leaves \<open>v\<close> in the input.
\<close>

definition onChange :: "int \<Rightarrow> string \<Rightarrow> chat_state \<Rightarrow> chat_state \<times> effect list" where
  "onChange now v s = handleTyping now (s\<lparr>newMessage := v\<rparr>)"

text \<open>
  A session at the keyboard: keystrokes with their times in ascending order, then
  idling until the time \<open>until\<close>. Time passes up to each keystroke before it is handled.
\<close>

fun keystrokes :: "(int \<times> string) list \<Rightarrow> int \<Rightarrow> chat_state \<Rightarrow> chat_state \<times> effect list" where
  "keystrokes [] until s = elapse until s"
| "keystrokes ((t, v) # ks) until s =
     (let (s1, out1) = elapse t s;
          (s2, out2) = onChange t v s1;
          (s3, out3) = keystrokes ks until s2
      in (s3, out1 @ out2 @ out3))"


section \<open>Chat screen: sending a message\<close>

text \<open>
  \<^verbatim>\<open>handleSendMessage\<close> up to its \<^verbatim>\<open>await\<close>:
  \<^verbatim>\<open>
  if (!newMessage.trim() || sending || !chatId) return;
  setSending(true);
  const messageContent = newMessage.trim();
  setNewMessage('');
  if (typing && socket) { setTyping(false); socket.emit('typing_stop', { chatId }); }
  ... await axios.post(`/chat/${chatId}/messages`, { content: messageContent });
  \<close>
  The continuation is a closure over \<^verbatim>\<open>messageContent\<close>, \<^verbatim>\<open>socket\<close> and \<^verbatim>\<open>chatId\<close>; it
  is returned when a request was sent.
\<close>

record send_pending =
  sent_content :: string
  sent_socket :: bool
  sent_chatId :: "string option"

definition handleSendMessage ::
  "chat_state \<Rightarrow> chat_state \<times> effect list \<times> send_pending option" where
  "handleSendMessage s =
     (if trim (newMessage s) = [] \<or> sending s \<or> \<not> truthy (chatId s) then (s, [], None)
      else
        (let messageContent = trim (newMessage s);
             s1 = s\<lparr>sending := True, newMessage := []\<rparr>;
             pending = \<lparr>sent_content = messageContent, sent_socket = socket s,
                        sent_chatId = chatId s\<rparr>;
             post = Post_chat_message (chatId s) messageContent
         in if typing s \<and> socket s
            then (s1\<lparr>typing := False\<rparr>, [Emit_typing_stop (chatId s), post], Some pending)
            else (s1, [post], Some pending)))"

text \<open>
  The continuation, run when the request settles (\<open>None\<close>: it was rejected):
  \<^verbatim>\<open>
  try { ...
    setChat(prev => prev ? { ...prev, messages: [...prev.messages, response.data] } : null);
    if (socket) { socket.emit('send_message', { chatId, message: messageContent }); }
  } catch (error) {
    console.error(...); toast.error('Failed to send message');
    setNewMessage(messageContent); // Restore message on error
  } finally { setSending(false); }
  \<close>
\<close>

definition send_settled ::
  "send_pending \<Rightarrow> message option \<Rightarrow> chat_state \<Rightarrow> chat_state \<times> effect list" where
  "send_settled pending response s =
     (case response of
        Some data \<Rightarrow>
          (s\<lparr>chat := append_message data (chat s), sending := False\<rparr>,
           if sent_socket pending
           then [Emit_send_message (sent_chatId pending) (sent_content pending)] else [])
      | None \<Rightarrow>
          (s\<lparr>newMessage := sent_content pending, sending := False\<rparr>,
           [Console_error, Toast_error ''Failed to send message'']))"


text \<open>One whole submission with nothing else happening while the request is in flight.\<close>

definition send_round :: "message option \<Rightarrow> chat_state \<Rightarrow> chat_state \<times> effect list" where
  "send_round response s =
     (case handleSendMessage s of
        (s1, out1, None) \<Rightarrow> (s1, out1)
      | (s1, out1, Some pending) \<Rightarrow>
          (let (s2, out2) = send_settled pending response s1 in (s2, out1 @ out2)))"


text \<open>The one event that establishes the history: a fetch that settles with data.\<close>

fun loads_history :: "chat_event \<Rightarrow> bool" where
  "loads_history (Fetch_settled (Some data)) = True"
| "loads_history e = False"


section \<open>Chat screen: date separators\<close>















section \<open>Discovery feed\<close>





















section \<open>Properties of the online-user list\<close>

lemma presence_step_distinct: "distinct xs \<Longrightarrow> distinct (presence_step e xs)"
  by (cases e) (simp_all add: user_online_def user_offline_def)

lemma presence_run_distinct: "distinct xs \<Longrightarrow> distinct (presence_run es xs)"
  by (induction es arbitrary: xs) (simp_all add: presence_step_distinct)

lemma remove_absent: "u \<notin> set xs \<Longrightarrow> filter (\<lambda>i. i \<noteq> u) xs = xs"
  by (induction xs) auto

lemma count_remove_self: "count_list (filter (\<lambda>i. i \<noteq> u) xs) u = 0"
  by (induction xs) simp_all

lemma length_remove_present:
  "u \<in> set xs \<Longrightarrow> distinct xs \<Longrightarrow> Suc (length (filter (\<lambda>i. i \<noteq> u) xs)) = length xs"
  by (induction xs) (auto simp add: remove_absent)

text \<open>
  Claim C6. The online list is maintained idempotently: after any sequence of
  \<^verbatim>\<open>user_online\<close> and \<^verbatim>\<open>user_offline\<close> events (from the initial empty list) each id
  occurs at most once; a \<^verbatim>\<open>user_online\<close> event leaves exactly one occurrence of its id
  whatever the list held before, also when the id was already present; a
  \<^verbatim>\<open>user_offline\<close> event removes the id and keeps every other entry, and changes
  nothing when the id is absent.
\<close>

theorem online_users_idempotent:
  "distinct (presence_run es [])
   \<and> count_list (user_online u xs) u = 1
   \<and> (u \<in> set xs \<longrightarrow> distinct xs \<longrightarrow> length (user_online u xs) = length xs)
   \<and> u \<notin> set (user_offline u xs)
   \<and> set (user_offline u xs) = set xs - {u}
   \<and> (u \<notin> set xs \<longrightarrow> user_offline u xs = xs)"
  by (auto simp add: presence_run_distinct user_online_def user_offline_def
      count_remove_self length_remove_present remove_absent)

theorem online_users_idempotent_witness:
  "distinct (presence_run [UserOnline ''a'', UserOnline ''b'', UserOnline ''a'', UserOffline ''c''] [])
   \<and> presence_run [UserOnline ''a'', UserOnline ''b'', UserOnline ''a'', UserOffline ''c''] [] = [''b'', ''a'']
   \<and> ''a'' \<in> set [''a'', ''b''] \<and> distinct [''a'', ''b'']
   \<and> length (user_online ''a'' [''a'', ''b'']) = length [''a'', ''b'']
   \<and> ''c'' \<notin> set [''a'', ''b''] \<and> user_offline ''c'' [''a'', ''b''] = [''a'', ''b'']"
  using online_users_idempotent
    [of "[UserOnline ''a'', UserOnline ''b'', UserOnline ''a'', UserOffline ''c'']" "''a''" "[''a'', ''b'']"]
    online_users_idempotent [of "[]" "''c''" "[''a'', ''b'']"]
  by (simp add: user_online_def user_offline_def)


section \<open>Properties of the presence status string\<close>

lemma whole_minutes:
  fixes d :: int
  assumes "int m * 60000 \<le> d" and "d < (int m + 1) * 60000"
  shows "d div 60000 = int m"
proof -
  have "d div 60000 < int m + 1"
    using assms(2) by (simp add: div_less_iff_less_mult)
  moreover have "int m \<le> d div 60000"
    using zdiv_mono1 [OF assms(1), of 60000] by simp
  ultimately show ?thesis by linarith
qed

lemma show_int_of_nat: "show_int (int n) = show_nat n"
  by (simp add: show_int_def)

lemma staleness_whole_minutes:
  assumes "int m * 60000 \<le> now - t" and "now - t < (int m + 1) * 60000"
  shows "staleness now (TimeValue t) =
           (if m < 60 then show_nat m @ ''m ago''
            else if m < 1440 then show_nat (m div 60) @ ''h ago''
            else show_nat (m div 1440) @ ''d ago'')"
proof -
  have d: "(now - t) div 60000 = int m"
    using assms by (rule whole_minutes)
  have h: "int m div 60 = int (m div 60)" and e: "int m div 1440 = int (m div 1440)"
    by (simp_all add: zdiv_int)
  have k: "(1000::int) * 60 = 60000"
    by simp
  show ?thesis
    unfolding staleness_def jsdate.case Let_def k d
    by (simp add: h e show_int_of_nat del: show_nat.simps)
qed

text \<open>
  Claim C7. When \<^verbatim>\<open>isOnline\<close> is true the status is \<^verbatim>\<open>Online\<close> whatever \<^verbatim>\<open>lastSeen\<close>
  holds. Otherwise, for a \<^verbatim>\<open>lastSeen\<close> time \<open>t\<close> that lies \<open>m\<close> whole minutes in the
  past (\<open>m * 60000 \<le> now - t < (m + 1) * 60000\<close>), the status is \<open>m\<close> followed by
  \<^verbatim>\<open>m ago\<close> when \<open>m < 60\<close>, \<open>m div 60\<close> followed by \<^verbatim>\<open>h ago\<close> when \<open>m < 1440\<close>, and
  \<open>m div 1440\<close> followed by \<^verbatim>\<open>d ago\<close> otherwise. The conversation list and the
  discovery card compute the same text as the chat header.
\<close>

theorem presence_status_buckets:
  "(isOnline u = Some True \<longrightarrow> Chat_getOnlineStatus now u = ''Online'')
   \<and> (isOnline u \<noteq> Some True \<longrightarrow> lastSeen u = Some (TimeValue t) \<longrightarrow>
        int m * 60000 \<le> now - t \<longrightarrow> now - t < (int m + 1) * 60000 \<longrightarrow>
        Chat_getOnlineStatus now u =
          (if m < 60 then show_nat m @ ''m ago''
           else if m < 1440 then show_nat (m div 60) @ ''h ago''
           else show_nat (m div 1440) @ ''d ago''))
   \<and> status_text (Matches_getOnlineStatus now u) = Chat_getOnlineStatus now u
   \<and> Dashboard_getOnlineStatus now u = Chat_getOnlineStatus now u"
  by (simp add: Chat_getOnlineStatus_def Matches_getOnlineStatus_def Dashboard_getOnlineStatus_def
      staleness_whole_minutes split: option.split del: show_nat.simps)

text \<open>
  The examples of the specification: online with a stale \<^verbatim>\<open>lastSeen\<close>; then
  \<^verbatim>\<open>lastSeen\<close> 10 minutes, 90 minutes and 2 days before \<open>now\<close>.
\<close>

theorem presence_status_buckets_witness:
  "Chat_getOnlineStatus 1700000000000 \<lparr>isOnline = Some True, lastSeen = Some (TimeValue 5)\<rparr> = ''Online''
   \<and> Chat_getOnlineStatus 1700000000000 \<lparr>isOnline = Some False, lastSeen = Some (TimeValue 1699999400000)\<rparr> = ''10m ago''
   \<and> Chat_getOnlineStatus 1700000000000 \<lparr>isOnline = None, lastSeen = Some (TimeValue 1699994600000)\<rparr> = ''1h ago''
   \<and> Chat_getOnlineStatus 1700000000000 \<lparr>isOnline = None, lastSeen = Some (TimeValue 1699827200000)\<rparr> = ''2d ago''"
  using presence_status_buckets [of "\<lparr>isOnline = Some True, lastSeen = Some (TimeValue 5)\<rparr>" 1700000000000 0 0]
    presence_status_buckets [of "\<lparr>isOnline = Some False, lastSeen = Some (TimeValue 1699999400000)\<rparr>" 1700000000000 1699999400000 10]
    presence_status_buckets [of "\<lparr>isOnline = None, lastSeen = Some (TimeValue 1699994600000)\<rparr>" 1700000000000 1699994600000 90]
    presence_status_buckets [of "\<lparr>isOnline = None, lastSeen = Some (TimeValue 1699827200000)\<rparr>" 1700000000000 1699827200000 2880]
  by (simp add: digit_char_def)


section \<open>Properties of the chat screen: live events\<close>

text \<open>
  The listeners that the subscription effect registers are those of the open
  conversation and the viewing identity.
\<close>

lemma mount_registers:
  "socket s \<Longrightarrow> truthy (chatId s) \<Longrightarrow>
     registered (chat_step Mounted s) = Some \<lparr>heard_chatId = chatId s, heard_userId = userId s\<rparr>"
  by (simp add: mount_def subscription_effect_def)

lemma append_changes: "c\<lparr>messages := messages c @ [m]\<rparr> \<noteq> c"
proof
  assume "c\<lparr>messages := messages c @ [m]\<rparr> = c"
  then have "messages (c\<lparr>messages := messages c @ [m]\<rparr>) = messages c"
    by simp
  then show False
    by simp
qed

text \<open>
  Claim C5, as stated, asks that an event for the open conversation is appended to the
  timeline. Right after mount, with the history request still pending, the listener is
  registered and there is no chat yet: an event tagged for the open conversation leaves
  the state as it was, and nothing is appended.
\<close>

theorem receive_before_history_counterexample:
  "registered (chat_step Mounted (initial_chat (Some ''c1'') True (Some ''u1'')))
     = Some \<lparr>heard_chatId = Some ''c1'', heard_userId = Some ''u1''\<rparr>
   \<and> received_chatId
        \<lparr>received_chatId = Some ''c1'', received_sender = ''u2'', received_message = ''hello'',
         received_timestamp = TimeValue 1699999999000\<rparr>
     = chatId (chat_step Mounted (initial_chat (Some ''c1'') True (Some ''u1'')))
   \<and> chat_step
        (Receive_message 1700000000000
           \<lparr>received_chatId = Some ''c1'', received_sender = ''u2'', received_message = ''hello'',
            received_timestamp = TimeValue 1699999999000\<rparr>)
        (chat_step Mounted (initial_chat (Some ''c1'') True (Some ''u1'')))
     = chat_step Mounted (initial_chat (Some ''c1'') True (Some ''u1''))"
  by (simp add: initial_chat_def mount_def subscription_effect_def truthy_def
      on_receive_message_def append_message_def)

text \<open>
  Claim C5, amended. With the listeners of the open conversation registered, a
  \<^verbatim>\<open>receive_message\<close> event appends a message to the timeline if and only if the
  event's conversation id equals the open conversation's id and the history is loaded.
  The appended message has the event's sender id, text and timestamp, the clock reading
  as its id and the placeholder name \<^verbatim>\<open>User\<close>; it goes to the end of the timeline and
  nothing else changes. An event tagged for another conversation, and any event that
  arrives while the history is not loaded, leaves the whole state unchanged.
\<close>

theorem receive_message_scoped:
  assumes "registered s = Some \<lparr>heard_chatId = chatId s, heard_userId = userId s\<rparr>"
  shows "chat_step (Receive_message now data) s =
           (case chat s of
              None \<Rightarrow> s
            | Some c \<Rightarrow>
                if received_chatId data = chatId s
                then s\<lparr>chat := Some (c\<lparr>messages := messages c @
                       [\<lparr>message_id = show_int now,
                         sender = \<lparr>sender_id = received_sender data, firstName = ''User'',
                                   lastName = [], profilePicture = None\<rparr>,
                         content = received_message data,
                         timestamp = received_timestamp data,
                         read = None, readAt = None\<rparr>]\<rparr>)\<rparr>
                else s)
         \<and> (chat_step (Receive_message now data) s \<noteq> s)
             = (received_chatId data = chatId s \<and> chat s \<noteq> None)"
proof (cases "chat s")
  case None
  then have "s\<lparr>chat := None\<rparr> = s"
    by simp
  with None assms show ?thesis
    by (simp add: on_receive_message_def append_message_def)
next
  case (Some c)
  have "s\<lparr>chat := Some (c\<lparr>messages := messages c @ [live_message now data]\<rparr>)\<rparr> \<noteq> s"
  proof
    assume "s\<lparr>chat := Some (c\<lparr>messages := messages c @ [live_message now data]\<rparr>)\<rparr> = s"
    then have "chat (s\<lparr>chat := Some (c\<lparr>messages := messages c @ [live_message now data]\<rparr>)\<rparr>)
        = chat s"
      by simp
    with Some show False
      using append_changes [of c "live_message now data"] by simp
  qed
  with Some assms show ?thesis
    by (simp add: on_receive_message_def append_message_def live_message_def)
qed

theorem receive_message_scoped_witness:
  "chat_step (Receive_message 1700000000000
       \<lparr>received_chatId = Some ''c1'', received_sender = ''u2'', received_message = ''hi'',
        received_timestamp = TimeValue 1699999999000\<rparr>)
     ((initial_chat (Some ''c1'') True (Some ''u1''))
        \<lparr>chat := Some \<lparr>chat_id = ''c1'', participants = [], messages = []\<rparr>, loading := False,
         registered := Some \<lparr>heard_chatId = Some ''c1'', heard_userId = Some ''u1''\<rparr>\<rparr>)
   = (initial_chat (Some ''c1'') True (Some ''u1''))
        \<lparr>chat := Some \<lparr>chat_id = ''c1'', participants = [],
           messages = [\<lparr>message_id = ''1700000000000'',
             sender = \<lparr>sender_id = ''u2'', firstName = ''User'', lastName = [], profilePicture = None\<rparr>,
             content = ''hi'', timestamp = TimeValue 1699999999000, read = None, readAt = None\<rparr>]\<rparr>,
         loading := False,
         registered := Some \<lparr>heard_chatId = Some ''c1'', heard_userId = Some ''u1''\<rparr>\<rparr>"
  using receive_message_scoped
    [of "(initial_chat (Some ''c1'') True (Some ''u1''))
        \<lparr>chat := Some \<lparr>chat_id = ''c1'', participants = [], messages = []\<rparr>, loading := False,
         registered := Some \<lparr>heard_chatId = Some ''c1'', heard_userId = Some ''u1''\<rparr>\<rparr>"
      1700000000000
      "\<lparr>received_chatId = Some ''c1'', received_sender = ''u2'', received_message = ''hi'',
        received_timestamp = TimeValue 1699999999000\<rparr>"]
  by (simp add: initial_chat_def show_int_def digit_char_def)

text \<open>
  Claim C9. With the listeners of the open conversation registered, a \<^verbatim>\<open>user_typing\<close>
  (\<^verbatim>\<open>user_stop_typing\<close>) event sets (clears) the flag for the other party exactly when
  its conversation id is the open one and its sender id differs from the viewing
  identity's id; otherwise, and so for every event the viewing identity originated, the
  state is unchanged.
\<close>

theorem typing_events_filtered:
  assumes "registered s = Some \<lparr>heard_chatId = chatId s, heard_userId = userId s\<rparr>"
  shows "chat_step (User_typing data) s =
           (if notice_chatId data = chatId s \<and> notice_userId data \<noteq> userId s
            then s\<lparr>otherUserTyping := True\<rparr> else s)
         \<and> chat_step (User_stop_typing data) s =
           (if notice_chatId data = chatId s \<and> notice_userId data \<noteq> userId s
            then s\<lparr>otherUserTyping := False\<rparr> else s)
         \<and> (notice_userId data = userId s \<longrightarrow>
               chat_step (User_typing data) s = s \<and> chat_step (User_stop_typing data) s = s)"
  using assms by (simp add: on_user_typing_def on_user_stop_typing_def)

theorem typing_events_filtered_witness:
  "otherUserTyping (chat_step (User_typing \<lparr>notice_chatId = Some ''c1'', notice_userId = Some ''u2''\<rparr>)
       (chat_step Mounted (initial_chat (Some ''c1'') True (Some ''u1''))))
   \<and> \<not> otherUserTyping (chat_step (User_typing \<lparr>notice_chatId = Some ''c1'', notice_userId = Some ''u1''\<rparr>)
       (chat_step Mounted (initial_chat (Some ''c1'') True (Some ''u1''))))
   \<and> \<not> otherUserTyping (chat_step (User_typing \<lparr>notice_chatId = Some ''c9'', notice_userId = Some ''u2''\<rparr>)
       (chat_step Mounted (initial_chat (Some ''c1'') True (Some ''u1''))))"
  using typing_events_filtered
    [of "chat_step Mounted (initial_chat (Some ''c1'') True (Some ''u1''))"
      "\<lparr>notice_chatId = Some ''c1'', notice_userId = Some ''u2''\<rparr>"]
    typing_events_filtered
    [of "chat_step Mounted (initial_chat (Some ''c1'') True (Some ''u1''))"
      "\<lparr>notice_chatId = Some ''c1'', notice_userId = Some ''u1''\<rparr>"]
  by (simp add: initial_chat_def mount_def subscription_effect_def truthy_def
      on_user_typing_def)


section \<open>Properties of the chat screen: sending\<close>

text \<open>
  Claim C10. Submitting the form when the input is empty after trimming, or while a
  send is in flight, or without a conversation id, returns at the guard: no request is
  sent, nothing is emitted, and the state (timeline, input and typing flag included) is
  unchanged.
\<close>

theorem send_guard_noop:
  "trim (newMessage s) = [] \<or> sending s \<or> \<not> truthy (chatId s) \<Longrightarrow>
     handleSendMessage s = (s, [], None) \<and> send_round response s = (s, [])"
  by (auto simp add: handleSendMessage_def send_round_def)

theorem send_guard_noop_witness:
  "trim (newMessage ((initial_chat (Some ''c1'') True (Some ''u1''))\<lparr>newMessage := ''   ''\<rparr>)) = []
   \<and> handleSendMessage ((initial_chat (Some ''c1'') True (Some ''u1''))\<lparr>newMessage := ''   ''\<rparr>)
       = ((initial_chat (Some ''c1'') True (Some ''u1''))\<lparr>newMessage := ''   ''\<rparr>, [], None)
   \<and> handleSendMessage ((initial_chat (Some ''c1'') True (Some ''u1''))\<lparr>newMessage := ''hi'', sending := True\<rparr>)
       = ((initial_chat (Some ''c1'') True (Some ''u1''))\<lparr>newMessage := ''hi'', sending := True\<rparr>, [], None)
   \<and> handleSendMessage ((initial_chat None True (Some ''u1''))\<lparr>newMessage := ''hi''\<rparr>)
       = ((initial_chat None True (Some ''u1''))\<lparr>newMessage := ''hi''\<rparr>, [], None)"
  using send_guard_noop [of "(initial_chat (Some ''c1'') True (Some ''u1''))\<lparr>newMessage := ''   ''\<rparr>"]
    send_guard_noop [of "(initial_chat (Some ''c1'') True (Some ''u1''))\<lparr>newMessage := ''hi'', sending := True\<rparr>"]
    send_guard_noop [of "(initial_chat None True (Some ''u1''))\<lparr>newMessage := ''hi''\<rparr>"]
  by (simp add: initial_chat_def trim_def is_space_def truthy_def)

text \<open>
  The typing flag is only ever raised by \<^verbatim>\<open>handleTyping\<close>, and only with a socket; no
  handler of the screen takes the socket away.
\<close>

lemma handleTyping_typing_needs_socket:
  "(typing s \<longrightarrow> socket s) \<Longrightarrow>
     typing (fst (handleTyping now s)) \<longrightarrow> socket (fst (handleTyping now s))"
  by (simp add: handleTyping_def Let_def)

text \<open>
  Claim C3, as stated, asks that a failed send restores the input content. The
  continuation restores \<^verbatim>\<open>messageContent\<close>, which is the trimmed input: an input with
  a leading blank comes back without it.
\<close>

theorem send_failure_restore_counterexample:
  "newMessage (fst (send_round None
      ((initial_chat (Some ''c1'') True (Some ''u1''))
         \<lparr>chat := Some \<lparr>chat_id = ''c1'', participants = [], messages = []\<rparr>,
          newMessage := '' hi'', loading := False\<rparr>)))
   \<noteq> newMessage
      ((initial_chat (Some ''c1'') True (Some ''u1''))
         \<lparr>chat := Some \<lparr>chat_id = ''c1'', participants = [], messages = []\<rparr>,
          newMessage := '' hi'', loading := False\<rparr>)"
  by (simp add: send_round_def handleSendMessage_def send_settled_def initial_chat_def
      trim_def is_space_def truthy_def Let_def)

text \<open>
  Claim C3, amended. On a submission that passes the guard, from a screen whose history
  is loaded and whose typing flag, if set, was set with a socket: before the request
  settles the input is empty, the typing flag is clear, the timeline is untouched and the
  request carries the trimmed input. When the request succeeds the server's message is
  appended to the timeline and the input stays empty. When it fails the timeline is the
  one before the submission and the input holds the trimmed text that was submitted;
  apart from the cleared typing flag nothing else differs from the state before.
\<close>

theorem send_optimistic_clear:
  assumes "trim (newMessage s) \<noteq> []" and "\<not> sending s" and "truthy (chatId s)"
    and "chat s = Some c" and "typing s \<longrightarrow> socket s"
  shows "newMessage (fst (handleSendMessage s)) = []
         \<and> \<not> typing (fst (handleSendMessage s))
         \<and> sending (fst (handleSendMessage s))
         \<and> chat (fst (handleSendMessage s)) = chat s
         \<and> Post_chat_message (chatId s) (trim (newMessage s)) \<in> set (fst (snd (handleSendMessage s)))
         \<and> fst (send_round (Some m) s)
             = s\<lparr>chat := Some (c\<lparr>messages := messages c @ [m]\<rparr>), newMessage := [],
                 typing := False\<rparr>
         \<and> fst (send_round None s)
             = s\<lparr>newMessage := trim (newMessage s), typing := False\<rparr>"
  using assms
  by (cases "typing s")
    (simp_all add: send_round_def handleSendMessage_def send_settled_def append_message_def
      Let_def)

theorem send_optimistic_clear_witness:
  "fst (send_round None
      ((initial_chat (Some ''c1'') True (Some ''u1''))
         \<lparr>chat := Some \<lparr>chat_id = ''c1'', participants = [], messages = []\<rparr>,
          newMessage := '' hi'', loading := False, typing := True\<rparr>))
   = (initial_chat (Some ''c1'') True (Some ''u1''))
         \<lparr>chat := Some \<lparr>chat_id = ''c1'', participants = [], messages = []\<rparr>,
          newMessage := ''hi'', loading := False, typing := False\<rparr>"
  using send_optimistic_clear
    [of "(initial_chat (Some ''c1'') True (Some ''u1''))
         \<lparr>chat := Some \<lparr>chat_id = ''c1'', participants = [], messages = []\<rparr>,
          newMessage := '' hi'', loading := False, typing := True\<rparr>"
      "\<lparr>chat_id = ''c1'', participants = [], messages = []\<rparr>"]
  by (simp add: initial_chat_def trim_def is_space_def truthy_def)


section \<open>Properties of the chat screen: history and subscription\<close>

lemma chat_step_keeps_unloaded:
  "chat s = None \<Longrightarrow> \<not> loads_history e \<Longrightarrow> chat (chat_step e s) = None"
proof (cases e)
  case Mounted
  assume "chat s = None"
  with Mounted show ?thesis
    by (simp add: mount_def subscription_effect_def)
next
  case (Fetch_settled response)
  assume "chat s = None" and "\<not> loads_history e"
  with Fetch_settled show ?thesis
    by (cases response) (simp_all add: fetchChat_settled_def)
next
  case (Receive_message now data)
  assume "chat s = None"
  with Receive_message show ?thesis
    by (simp add: on_receive_message_def append_message_def split: option.split)
next
  case (User_typing data)
  assume "chat s = None"
  with User_typing show ?thesis
    by (simp add: on_user_typing_def split: option.split)
next
  case (User_stop_typing data)
  assume "chat s = None"
  with User_stop_typing show ?thesis
    by (simp add: on_user_stop_typing_def split: option.split)
qed

lemma chat_run_keeps_unloaded:
  "chat s = None \<Longrightarrow> \<forall>e \<in> set es. \<not> loads_history e \<Longrightarrow> chat (chat_run es s) = None"
  by (induction es arbitrary: s) (simp_all add: chat_step_keeps_unloaded)

text \<open>
  Claim C1, as stated, asks that the subscription is created only after the history
  fetch resolves. Mounting a screen that has a socket and a conversation id sends the
  history request and registers the listeners in the same pass; the screen is then
  subscribed while still loading. A live message that arrives now finds no chat to
  append to, and the history that arrives afterwards is taken as it is: the live message
  is in no timeline.
\<close>

theorem subscription_before_history_counterexample:
  "mount (initial_chat (Some ''c1'') True (Some ''u1''))
     = ((initial_chat (Some ''c1'') True (Some ''u1''))
          \<lparr>registered := Some \<lparr>heard_chatId = Some ''c1'', heard_userId = Some ''u1''\<rparr>\<rparr>,
        [Get_chat_messages (Some ''c1''), Emit_join_chat (Some ''c1'')])
   \<and> loading (chat_run [Mounted] (initial_chat (Some ''c1'') True (Some ''u1'')))
   \<and> chat (chat_run
        [Mounted,
         Receive_message 1700000000000
           \<lparr>received_chatId = Some ''c1'', received_sender = ''u2'', received_message = ''hi'',
            received_timestamp = TimeValue 1699999999000\<rparr>]
        (initial_chat (Some ''c1'') True (Some ''u1''))) = None
   \<and> chat (chat_run
        [Mounted,
         Receive_message 1700000000000
           \<lparr>received_chatId = Some ''c1'', received_sender = ''u2'', received_message = ''hi'',
            received_timestamp = TimeValue 1699999999000\<rparr>,
         Fetch_settled (Some \<lparr>chat_id = ''c1'', participants = [], messages = []\<rparr>)]
        (initial_chat (Some ''c1'') True (Some ''u1'')))
     = Some \<lparr>chat_id = ''c1'', participants = [], messages = []\<rparr>"
  by (simp add: initial_chat_def mount_def subscription_effect_def fetch_effect_def truthy_def
      on_receive_message_def append_message_def fetchChat_settled_def)

text \<open>
  Claim C1, amended. The subscription is created at mount, whenever a socket and a
  conversation id are present, whether or not the history has arrived; mounting does not
  touch the chat or the loading flag. Until a fetch settles with data the chat stays
  unloaded whatever events arrive, live messages included. A fetch that settles with data
  makes the chat exactly the fetched history. Once the history is loaded, a live message
  for the subscribed conversation is appended to it.
\<close>

theorem subscription_independent_of_history:
  "(socket s \<and> truthy (chatId s) \<longrightarrow>
      registered (chat_step Mounted s)
        = Some \<lparr>heard_chatId = chatId s, heard_userId = userId s\<rparr>)
   \<and> chat (chat_step Mounted s) = chat s
   \<and> loading (chat_step Mounted s) = loading s
   \<and> (chat s = None \<longrightarrow> (\<forall>e \<in> set es. \<not> loads_history e) \<longrightarrow> chat (chat_run es s) = None)
   \<and> chat (chat_step (Fetch_settled (Some h)) s) = Some h
   \<and> (registered s = Some l \<longrightarrow> chat s = Some c \<longrightarrow> received_chatId data = heard_chatId l \<longrightarrow>
        chat (chat_step (Receive_message now data) s)
          = Some (c\<lparr>messages := messages c @ [live_message now data]\<rparr>))"
  by (simp add: chat_run_keeps_unloaded mount_def subscription_effect_def fetchChat_settled_def
      on_receive_message_def append_message_def)

theorem subscription_independent_of_history_witness:
  "registered (chat_step Mounted (initial_chat (Some ''c1'') True (Some ''u1'')))
     = Some \<lparr>heard_chatId = Some ''c1'', heard_userId = Some ''u1''\<rparr>
   \<and> chat (chat_run
        [Mounted,
         Receive_message 1700000000000
           \<lparr>received_chatId = Some ''c1'', received_sender = ''u2'', received_message = ''hi'',
            received_timestamp = TimeValue 1699999999000\<rparr>,
         Fetch_settled None]
        (initial_chat (Some ''c1'') True (Some ''u1''))) = None
   \<and> chat (chat_step
        (Receive_message 1700000000000
           \<lparr>received_chatId = Some ''c1'', received_sender = ''u2'', received_message = ''hi'',
            received_timestamp = TimeValue 1699999999000\<rparr>)
        (chat_run [Mounted, Fetch_settled (Some \<lparr>chat_id = ''c1'', participants = [], messages = []\<rparr>)]
           (initial_chat (Some ''c1'') True (Some ''u1''))))
     = Some \<lparr>chat_id = ''c1'', participants = [],
         messages = [live_message 1700000000000
           \<lparr>received_chatId = Some ''c1'', received_sender = ''u2'', received_message = ''hi'',
            received_timestamp = TimeValue 1699999999000\<rparr>]\<rparr>"
  using subscription_independent_of_history
    [where s = "initial_chat (Some ''c1'') True (Some ''u1'')"
       and es = "[Mounted,
         Receive_message 1700000000000
           \<lparr>received_chatId = Some ''c1'', received_sender = ''u2'', received_message = ''hi'',
            received_timestamp = TimeValue 1699999999000\<rparr>,
         Fetch_settled None]"]
    subscription_independent_of_history
    [where s = "chat_run [Mounted, Fetch_settled (Some \<lparr>chat_id = ''c1'', participants = [], messages = []\<rparr>)]
           (initial_chat (Some ''c1'') True (Some ''u1''))"
       and l = "\<lparr>heard_chatId = Some ''c1'', heard_userId = Some ''u1''\<rparr>"
       and c = "\<lparr>chat_id = ''c1'', participants = [], messages = []\<rparr>"
       and now = 1700000000000
       and data = "\<lparr>received_chatId = Some ''c1'', received_sender = ''u2'', received_message = ''hi'',
            received_timestamp = TimeValue 1699999999000\<rparr>"]
  by (simp add: initial_chat_def truthy_def mount_def subscription_effect_def
      fetchChat_settled_def)

section \<open>Properties of the chat screen: typing signal\<close>

text \<open>
  Claim C2 asks that every burst of keystrokes produces one \<^verbatim>\<open>typing_start\<close> and, one
  second after its last keystroke, one \<^verbatim>\<open>typing_stop\<close> that clears the typing flag. A
  burst of a single keystroke: \<^verbatim>\<open>typing_start\<close> is emitted, but the timer callback
  was created in the render where \<^verbatim>\<open>typing\<close> was still false, so when it fires it
  emits nothing and the flag stays set, one second later and at any later time.
\<close>

theorem typing_single_keystroke_never_stops:
  "keystrokes [(0, ''h'')] 1000
      ((initial_chat (Some ''c1'') True (Some ''u1''))
         \<lparr>chat := Some \<lparr>chat_id = ''c1'', participants = [], messages = []\<rparr>, loading := False\<rparr>)
     = ((initial_chat (Some ''c1'') True (Some ''u1''))
         \<lparr>chat := Some \<lparr>chat_id = ''c1'', participants = [], messages = []\<rparr>, loading := False,
          newMessage := ''h'', typing := True\<rparr>,
        [Emit_typing_start (Some ''c1'')])
   \<and> keystrokes [(0, ''h'')] 3600000
      ((initial_chat (Some ''c1'') True (Some ''u1''))
         \<lparr>chat := Some \<lparr>chat_id = ''c1'', participants = [], messages = []\<rparr>, loading := False\<rparr>)
     = ((initial_chat (Some ''c1'') True (Some ''u1''))
         \<lparr>chat := Some \<lparr>chat_id = ''c1'', participants = [], messages = []\<rparr>, loading := False,
          newMessage := ''h'', typing := True\<rparr>,
        [Emit_typing_start (Some ''c1'')])"
  by (simp add: initial_chat_def onChange_def handleTyping_def elapse_def typing_timeout_def
      truthy_def Let_def)

text \<open>
  For comparison, a burst of two keystrokes half a second apart: the second keystroke's
  callback captured the raised flag, and one second after it \<^verbatim>\<open>typing_stop\<close> is
  emitted and the flag cleared.
\<close>

lemma typing_two_keystrokes_stop:
  "keystrokes [(0, ''h''), (500, ''hi'')] 1500
      ((initial_chat (Some ''c1'') True (Some ''u1''))
         \<lparr>chat := Some \<lparr>chat_id = ''c1'', participants = [], messages = []\<rparr>, loading := False\<rparr>)
     = ((initial_chat (Some ''c1'') True (Some ''u1''))
         \<lparr>chat := Some \<lparr>chat_id = ''c1'', participants = [], messages = []\<rparr>, loading := False,
          newMessage := ''hi''\<rparr>,
        [Emit_typing_start (Some ''c1''), Emit_typing_stop (Some ''c1'')])"
  by (simp add: initial_chat_def onChange_def handleTyping_def elapse_def typing_timeout_def
      truthy_def Let_def)


section \<open>Properties of the date separators\<close>








section \<open>Properties of the discovery feed\<close>









end
